theory Spec2Isabelle
  imports Main "HOL-Library.Word"
begin

section \<open>Python values, event messages and failures\<close>

text \<open>
  The test client of \<^verbatim>\<open>starlette/testclient.py\<close> exchanges dictionaries (event
  messages) with an application. A message is a dictionary from key strings to Python
  values; the values that the bridge inspects are modelled by \<open>pyval\<close>. \<open>VList\<close> is
  a list or a tuple, a generator object is the list of the values it has still to yield,
  and \<open>VObj\<close> is an object of which the bridge uses nothing but its identity.
\<close>

type_synonym bytes = "8 word list"

datatype pyval =
    VNone
  | VBool bool
  | VInt int
  | VStr string
  | VBytes bytes
  | VList "pyval list"
  | VGen "pyval list"
  | VObj nat

type_synonym message = "string \<rightharpoonup> pyval"

datatype exn =
    AssertionError string
  | KeyError string
  | TypeError
  | ValueError
  | AttributeError
  | UnicodeDecodeError
  | WebSocketDisconnect pyval
  | InvalidStateError
  | AppError string

text \<open>Python's truth value of an object, as \<^verbatim>\<open>if not more_body\<close> tests it.\<close>

fun truthy :: "pyval \<Rightarrow> bool" where
  "truthy VNone = False"
| "truthy (VBool b) = b"
| "truthy (VInt i) = (i \<noteq> 0)"
| "truthy (VStr s) = (s \<noteq> [])"
| "truthy (VBytes b) = (b \<noteq> [])"
| "truthy (VList xs) = (xs \<noteq> [])"
| "truthy (VGen g) = True"
| "truthy (VObj n) = True"

text \<open>\<^verbatim>\<open>message.get(key, default)\<close>.\<close>

definition dict_get :: "message \<Rightarrow> string \<Rightarrow> pyval \<Rightarrow> pyval" where
  "dict_get m k d = (case m k of None \<Rightarrow> d | Some v \<Rightarrow> v)"

text \<open>
  What the bridge takes from Python's library and does not define itself: the UTF-8
  codec (\<^verbatim>\<open>str.encode\<close>, \<^verbatim>\<open>bytes.decode\<close>, the latter failing on ill-formed
  input) and the table of \<^verbatim>\<open>http.HTTPStatus\<close> phrases. They are parameters of the
  model.
\<close>

record stdlib =
  utf8_encode :: "string \<Rightarrow> bytes"
  utf8_decode :: "bytes \<Rightarrow> string option"
  status_phrase :: "int \<Rightarrow> string option"

text \<open>
  \<^verbatim>\<open>_get_reason_phrase\<close>: the phrase of a known status code, the empty string when
  \<^verbatim>\<open>http.HTTPStatus\<close> raises \<^verbatim>\<open>ValueError\<close>.
\<close>

definition get_reason_phrase :: "stdlib \<Rightarrow> pyval \<Rightarrow> string" where
  "get_reason_phrase lib status_code =
     (case status_code of
        VInt n \<Rightarrow> (case status_phrase lib n of Some p \<Rightarrow> p | None \<Rightarrow> [])
      | _ \<Rightarrow> [])"

section \<open>The response buffer\<close>

text \<open>
  \<^verbatim>\<open>io.BytesIO\<close>: the bytes written so far and the stream position. \<^verbatim>\<open>write\<close>
  overwrites from the position on and moves it; \<^verbatim>\<open>read\<close> returns what lies after the
  position.
\<close>

record bytesio =
  buf :: bytes
  pos :: nat

definition BytesIO :: bytesio where
  "BytesIO = \<lparr>buf = [], pos = 0\<rparr>"

definition bio_write :: "bytesio \<Rightarrow> bytes \<Rightarrow> bytesio" where
  "bio_write b d =
     (if d = [] then b
      else \<lparr>buf = take (pos b) (buf b) @ replicate (pos b - length (buf b)) 0 @ d
                   @ drop (pos b + length d) (buf b),
            pos = pos b + length d\<rparr>)"

definition bio_seek0 :: "bytesio \<Rightarrow> bytesio" where
  "bio_seek0 b = b\<lparr>pos := 0\<rparr>"

definition bio_read :: "bytesio \<Rightarrow> bytes" where
  "bio_read b = drop (pos b) (buf b)"

section \<open>The HTTP bridge: state of one exchange\<close>

record mock_original_response =
  msg :: "(string \<times> string) list"
  closed :: bool

definition MockOriginalResponse :: "(string \<times> string) list \<Rightarrow> mock_original_response" where
  "MockOriginalResponse hs = \<lparr>msg = hs, closed = False\<rparr>"

text \<open>
  The dictionary \<^verbatim>\<open>raw_kwargs\<close>. It starts with the key \<^verbatim>\<open>body\<close> only; a key that
  is not yet set is \<open>None\<close>.
\<close>

record raw_kwargs =
  rk_body :: bytesio
  rk_version :: "int option"
  rk_status :: "pyval option"
  rk_reason :: "string option"
  rk_headers :: "(string \<times> string) list option"
  rk_preload_content :: "bool option"
  rk_original_response :: "mock_original_response option"

text \<open>
  The variables that the closures \<^verbatim>\<open>receive\<close> and \<^verbatim>\<open>send\<close> of
  \<^verbatim>\<open>_ASGIAdapter.send\<close> share, and the request body, whose generator advances.
\<close>

record exchange =
  request_body :: pyval
  request_complete :: bool
  response_started :: bool
  response_complete :: bool
  raw :: raw_kwargs
  template :: pyval
  context' :: pyval

definition initial_exchange :: "pyval \<Rightarrow> exchange" where
  "initial_exchange body =
     \<lparr>request_body = body, request_complete = False, response_started = False,
      response_complete = False,
      raw = \<lparr>rk_body = BytesIO, rk_version = None, rk_status = None, rk_reason = None,
             rk_headers = None, rk_preload_content = None, rk_original_response = None\<rparr>,
      template = VNone, context' = VNone\<rparr>"

section \<open>The HTTP bridge: receive\<close>

text \<open>
  \<^verbatim>\<open>while not response_complete: await asyncio.sleep(0.0001)\<close>. The application is
  run as one sequential coroutine, so nothing changes the flag while the loop sleeps: the
  loop returns at once when the response is complete and never otherwise.
\<close>

partial_function (option) wait_response_complete :: "exchange \<Rightarrow> exchange option" where
  "wait_response_complete st =
     (if response_complete st then Some st else wait_response_complete st)"

definition http_request :: "pyval \<Rightarrow> message" where
  "http_request b = [''type'' \<mapsto> VStr ''http.request'', ''body'' \<mapsto> b]"

definition http_request_more :: "pyval \<Rightarrow> message" where
  "http_request_more b =
     [''type'' \<mapsto> VStr ''http.request'', ''body'' \<mapsto> b, ''more_body'' \<mapsto> VBool True]"

definition http_disconnect :: message where
  "http_disconnect = [''type'' \<mapsto> VStr ''http.disconnect'']"

text \<open>\<^verbatim>\<open>if isinstance(chunk, str): chunk = chunk.encode("utf-8")\<close>.\<close>

definition encode_chunk :: "stdlib \<Rightarrow> pyval \<Rightarrow> pyval" where
  "encode_chunk lib chunk =
     (case chunk of VStr s \<Rightarrow> VBytes (utf8_encode lib s) | _ \<Rightarrow> chunk)"

text \<open>
  The closure \<^verbatim>\<open>receive\<close>. \<open>None\<close> is the call that never returns. A generator body
  is resumed once per call: a chunk it yields is sent with \<^verbatim>\<open>more_body\<close> true (a
  \<^verbatim>\<open>str\<close> chunk encoded first), and \<^verbatim>\<open>StopIteration\<close> gives one more event with an
  empty body and completes the request.
\<close>

definition receive :: "stdlib \<Rightarrow> exchange \<Rightarrow> (message \<times> exchange) option" where
  "receive lib st =
     (if request_complete st then
        (case wait_response_complete st of
           None \<Rightarrow> None
         | Some st' \<Rightarrow> Some (http_disconnect, st'))
      else
        (case request_body st of
           VStr s \<Rightarrow>
             Some (http_request (VBytes (utf8_encode lib s)), st\<lparr>request_complete := True\<rparr>)
         | VNone \<Rightarrow>
             Some (http_request (VBytes []), st\<lparr>request_complete := True\<rparr>)
         | VGen g \<Rightarrow>
             (case g of
                chunk # rest \<Rightarrow>
                  Some (http_request_more (encode_chunk lib chunk),
                        st\<lparr>request_body := VGen rest\<rparr>)
              | [] \<Rightarrow>
                  Some (http_request (VBytes []), st\<lparr>request_complete := True\<rparr>))
         | body \<Rightarrow>
             Some (http_request body, st\<lparr>request_complete := True\<rparr>)))"

section \<open>The HTTP bridge: send\<close>

text \<open>
  Python's iteration over a value: the characters of a \<^verbatim>\<open>str\<close>, the integers of a
  \<^verbatim>\<open>bytes\<close>, the items of a list or tuple, what a generator yields; any other value
  is not iterable. Unpacking \<^verbatim>\<open>key, value = item\<close> iterates the item and wants
  exactly two values.
\<close>

definition iterate :: "pyval \<Rightarrow> exn + pyval list" where
  "iterate v =
     (case v of
        VStr s \<Rightarrow> Inr (map (\<lambda>c. VStr [c]) s)
      | VBytes b \<Rightarrow> Inr (map (\<lambda>w. VInt (uint w)) b)
      | VList xs \<Rightarrow> Inr xs
      | VGen g \<Rightarrow> Inr g
      | _ \<Rightarrow> Inl TypeError)"

definition unpack2 :: "pyval \<Rightarrow> exn + pyval \<times> pyval" where
  "unpack2 item =
     (case iterate item of
        Inl e \<Rightarrow> Inl e
      | Inr xs \<Rightarrow> (case xs of [k, v] \<Rightarrow> Inr (k, v) | _ \<Rightarrow> Inl ValueError))"

text \<open>\<^verbatim>\<open>key.decode()\<close>: only \<^verbatim>\<open>bytes\<close> has the method.\<close>

definition decode :: "stdlib \<Rightarrow> pyval \<Rightarrow> exn + string" where
  "decode lib v =
     (case v of
        VBytes b \<Rightarrow> (case utf8_decode lib b of None \<Rightarrow> Inl UnicodeDecodeError | Some s \<Rightarrow> Inr s)
      | _ \<Rightarrow> Inl AttributeError)"

text \<open>
  \<^verbatim>\<open>[(key.decode(), value.decode()) for key, value in message["headers"]]\<close>: the
  items in order, each unpacked and then decoded, the first failure raised.
\<close>

fun decode_items :: "stdlib \<Rightarrow> pyval list \<Rightarrow> exn + (string \<times> string) list" where
  "decode_items lib [] = Inr []"
| "decode_items lib (item # items) =
     (case unpack2 item of
        Inl e \<Rightarrow> Inl e
      | Inr (k, v) \<Rightarrow>
          (case decode lib k of
             Inl e \<Rightarrow> Inl e
           | Inr k' \<Rightarrow>
               (case decode lib v of
                  Inl e \<Rightarrow> Inl e
                | Inr v' \<Rightarrow>
                    (case decode_items lib items of
                       Inl e \<Rightarrow> Inl e
                     | Inr hs \<Rightarrow> Inr ((k', v') # hs)))))"

definition decode_headers :: "stdlib \<Rightarrow> pyval \<Rightarrow> exn + (string \<times> string) list" where
  "decode_headers lib h =
     (case iterate h of Inl e \<Rightarrow> Inl e | Inr items \<Rightarrow> decode_items lib items)"

text \<open>
  The branch of \<^verbatim>\<open>send\<close> for \<^verbatim>\<open>http.response.start\<close>. The assignments to
  \<^verbatim>\<open>raw_kwargs\<close> made before a failing lookup stay.
\<close>

definition send_start :: "stdlib \<Rightarrow> message \<Rightarrow> exchange \<Rightarrow> exn option \<times> exchange" where
  "send_start lib message st =
     (if response_started st then
        (Some (AssertionError ''Received multiple \"http.response.start\" messages.''), st)
      else
        let st1 = st\<lparr>raw := (raw st)\<lparr>rk_version := Some 11\<rparr>\<rparr> in
        (case message ''status'' of
           None \<Rightarrow> (Some (KeyError ''status''), st1)
         | Some status \<Rightarrow>
             let st2 = st1\<lparr>raw := (raw st1)\<lparr>rk_status := Some status,
                                             rk_reason := Some (get_reason_phrase lib status)\<rparr>\<rparr> in
             (case message ''headers'' of
                None \<Rightarrow> (Some (KeyError ''headers''), st2)
              | Some h \<Rightarrow>
                  (case decode_headers lib h of
                     Inl e \<Rightarrow> (Some e, st2)
                   | Inr hs \<Rightarrow>
                       (None,
                        st2\<lparr>raw := (raw st2)\<lparr>rk_headers := Some hs,
                                              rk_preload_content := Some False,
                                              rk_original_response :=
                                                Some (MockOriginalResponse hs)\<rparr>,
                            response_started := True\<rparr>)))))"

text \<open>
  The branch for \<^verbatim>\<open>http.response.body\<close>. \<^verbatim>\<open>BytesIO.write\<close> takes bytes only.
\<close>

definition send_body :: "string \<Rightarrow> message \<Rightarrow> exchange \<Rightarrow> exn option \<times> exchange" where
  "send_body method message st =
     (if \<not> response_started st then
        (Some (AssertionError
                 ''Received \"http.response.body\" without \"http.response.start\".''), st)
      else if response_complete st then
        (Some (AssertionError ''Received \"http.response.body\" after response completed.''), st)
      else
        let body = dict_get message ''body'' (VBytes []);
            more_body = dict_get message ''more_body'' (VBool False)
        in
        (case (if method \<noteq> ''HEAD'' then
                 (case body of
                    VBytes b \<Rightarrow> Inr (st\<lparr>raw := (raw st)\<lparr>rk_body := bio_write (rk_body (raw st)) b\<rparr>\<rparr>)
                  | _ \<Rightarrow> Inl TypeError)
               else Inr st) of
           Inl e \<Rightarrow> (Some e, st)
         | Inr st1 \<Rightarrow>
             if \<not> truthy more_body then
               (None, st1\<lparr>raw := (raw st1)\<lparr>rk_body := bio_seek0 (rk_body (raw st1))\<rparr>,
                          response_complete := True\<rparr>)
             else (None, st1)))"

text \<open>The branch for \<^verbatim>\<open>http.response.template\<close>.\<close>

definition send_template :: "message \<Rightarrow> exchange \<Rightarrow> exn option \<times> exchange" where
  "send_template message st =
     (case message ''template'' of
        None \<Rightarrow> (Some (KeyError ''template''), st)
      | Some t \<Rightarrow>
          let st1 = st\<lparr>template := t\<rparr> in
          (case message ''context'' of
             None \<Rightarrow> (Some (KeyError ''context''), st1)
           | Some c \<Rightarrow> (None, st1\<lparr>context' := c\<rparr>)))"

text \<open>
  The closure \<^verbatim>\<open>send\<close>: the failure raised to the application, if any, and the
  state after the call. A message of any other type falls through the chain.
\<close>

definition send :: "stdlib \<Rightarrow> string \<Rightarrow> message \<Rightarrow> exchange \<Rightarrow> exn option \<times> exchange" where
  "send lib method message st =
     (case message ''type'' of
        None \<Rightarrow> (Some (KeyError ''type''), st)
      | Some t \<Rightarrow>
          if t = VStr ''http.response.start'' then send_start lib message st
          else if t = VStr ''http.response.body'' then send_body method message st
          else if t = VStr ''http.response.template'' then send_template message st
          else (None, st))"

section \<open>The HTTP bridge: one exchange\<close>

text \<open>
  The coroutine \<^verbatim>\<open>self.app(scope, receive, send)\<close>, as the bridge sees it: it returns,
  raises, or awaits one of the two callables and goes on with the outcome. A failure that
  \<^verbatim>\<open>send\<close> raises is raised inside the application, which may handle it or let it
  through.
\<close>

datatype app =
    Return
  | Raise exn
  | AwaitReceive "message \<Rightarrow> app"
  | AwaitSend message "exn option \<Rightarrow> app"

text \<open>
  \<^verbatim>\<open>loop.run_until_complete(self.app(scope, receive, send))\<close> on the closures of one
  exchange: the failure the coroutine ended with, if any, and the final state; \<open>None\<close>
  when it never completes.
\<close>

primrec run_until_complete ::
  "stdlib \<Rightarrow> string \<Rightarrow> app \<Rightarrow> exchange \<Rightarrow> (exn option \<times> exchange) option" where
  "run_until_complete lib method Return st = Some (None, st)"
| "run_until_complete lib method (Raise e) st = Some (Some e, st)"
| "run_until_complete lib method (AwaitReceive k) st =
     (case receive lib st of
        None \<Rightarrow> None
      | Some (m, st') \<Rightarrow> run_until_complete lib method (k m) st')"
| "run_until_complete lib method (AwaitSend m k) st =
     (case send lib method m st of (r, st') \<Rightarrow> run_until_complete lib method (k r) st')"

record request =
  method' :: string
  body :: pyval

text \<open>
  Lines 258 and 259 hand \<^verbatim>\<open>raw_kwargs\<close> to the HTTP client library:
  \<^verbatim>\<open>urllib3.HTTPResponse(**raw_kwargs)\<close>, then \<^verbatim>\<open>self.build_response(request, raw)\<close>
  of \<^verbatim>\<open>requests\<close>. The library is not part of the bridge; what it makes of the
  request and the keyword arguments, a response object or a failure, is a parameter of the
  model.
\<close>

type_synonym 'r http_library = "request \<Rightarrow> raw_kwargs \<Rightarrow> exn + 'r"

text \<open>
  What \<^verbatim>\<open>_ASGIAdapter.send\<close> returns: the library's response object, with the
  attributes \<^verbatim>\<open>template\<close> and \<^verbatim>\<open>context\<close> set on it only when a template was
  recorded.
\<close>

record 'r response =
  response_obj :: 'r
  response_template :: "pyval option"
  response_context :: "pyval option"

text \<open>Lines 258 to 263, for the keyword arguments \<open>K\<close>, the template and the context.\<close>

definition make_response ::
  "'r http_library \<Rightarrow> request \<Rightarrow> raw_kwargs \<Rightarrow> pyval \<Rightarrow> pyval \<Rightarrow> exn + 'r response" where
  "make_response library req K t c =
     (case library req K of
        Inl e \<Rightarrow> Inl e
      | Inr r \<Rightarrow>
          Inr \<lparr>response_obj = r,
               response_template = (if t \<noteq> VNone then Some t else None),
               response_context = (if t \<noteq> VNone then Some c else None)\<rparr>)"

definition synthetic_raw_kwargs :: raw_kwargs where
  "synthetic_raw_kwargs =
     \<lparr>rk_body = BytesIO, rk_version = Some 11, rk_status = Some (VInt 500),
      rk_reason = Some ''Internal Server Error'', rk_headers = Some [],
      rk_preload_content = Some False,
      rk_original_response = Some (MockOriginalResponse [])\<rparr>"

text \<open>The part of \<^verbatim>\<open>_ASGIAdapter.send\<close> after the \<^verbatim>\<open>try\<close> statement.\<close>

definition finish_exchange ::
  "'r http_library \<Rightarrow> bool \<Rightarrow> request \<Rightarrow> exchange \<Rightarrow> exn + 'r response" where
  "finish_exchange library raise_server_exceptions req st =
     (if raise_server_exceptions then
        (if response_started st
         then make_response library req (raw st) (template st) (context' st)
         else Inl (AssertionError ''TestClient did not receive any response.''))
      else if \<not> response_started st then
        make_response library req synthetic_raw_kwargs (template st) (context' st)
      else make_response library req (raw st) (template st) (context' st))"

text \<open>
  \<^verbatim>\<open>_ASGIAdapter.send\<close> for the schemes \<^verbatim>\<open>http\<close> and \<^verbatim>\<open>https\<close>, from the
  initialisation of the shared variables on. The argument \<open>a\<close> is the coroutine of the
  application for the scope built from the request.
\<close>

definition ASGIAdapter_send ::
  "stdlib \<Rightarrow> 'r http_library \<Rightarrow> bool \<Rightarrow> request \<Rightarrow> app \<Rightarrow> (exn + 'r response) option" where
  "ASGIAdapter_send lib library raise_server_exceptions req a =
     (case run_until_complete lib (method' req) a (initial_exchange (body req)) of
        None \<Rightarrow> None
      | Some (exc, st) \<Rightarrow>
          (case exc of
             Some e \<Rightarrow>
               if raise_server_exceptions then Some (Inl e)
               else Some (finish_exchange library raise_server_exceptions req st)
           | None \<Rightarrow> Some (finish_exchange library raise_server_exceptions req st)))"

text \<open>
  An application that reads the request body: it awaits \<^verbatim>\<open>receive\<close> until an event
  comes without a true \<^verbatim>\<open>more_body\<close>. These are the events it is given.
\<close>

function read_request_events :: "stdlib \<Rightarrow> exchange \<Rightarrow> message list" where
  "read_request_events lib st =
     (case receive lib st of
        None \<Rightarrow> []
      | Some (m, st') \<Rightarrow>
          if truthy (dict_get m ''more_body'' (VBool False))
          then m # read_request_events lib st'
          else [m])"
  by pat_completeness auto
termination
proof (relation "measure (\<lambda>(lib, st). case request_body st of VGen g \<Rightarrow> length g | _ \<Rightarrow> 0)")
  show "wf (measure (\<lambda>(lib, st). case request_body st of VGen g \<Rightarrow> length g | _ \<Rightarrow> 0))"
    by simp
next
  fix lib :: stdlib and st :: exchange and x2 m st'
  assume r: "receive lib st = Some x2" and p: "(m, st') = x2"
    and t: "truthy (dict_get m ''more_body'' (VBool False))"
  from r p have "receive lib st = Some (m, st')" by simp
  with t show "((lib, st'), (lib, st))
      \<in> measure (\<lambda>(lib, st). case request_body st of VGen g \<Rightarrow> length g | _ \<Rightarrow> 0)"
    by (auto simp: receive_def dict_get_def http_request_def http_request_more_def
          http_disconnect_def split: if_splits option.splits pyval.splits list.splits)
qed

text \<open>An application that sends the given messages in order and lets a failure through.\<close>

fun sends :: "message list \<Rightarrow> app" where
  "sends [] = Return"
| "sends (m # ms) = AwaitSend m (\<lambda>r. case r of None \<Rightarrow> sends ms | Some e \<Rightarrow> Raise e)"

text \<open>
  The messages that the coroutine passes to \<^verbatim>\<open>send\<close> in one exchange, in order,
  whatever else it does in between.
\<close>

primrec sent :: "stdlib \<Rightarrow> string \<Rightarrow> app \<Rightarrow> exchange \<Rightarrow> message list" where
  "sent lib meth Return st = []"
| "sent lib meth (Raise e) st = []"
| "sent lib meth (AwaitReceive k) st =
     (case receive lib st of None \<Rightarrow> [] | Some (m, st') \<Rightarrow> sent lib meth (k m) st')"
| "sent lib meth (AwaitSend m k) st =
     m # (case send lib meth m st of (r, st') \<Rightarrow> sent lib meth (k r) st')"

text \<open>The state after the given messages have been passed to \<^verbatim>\<open>send\<close> one by one.\<close>

fun send_all :: "stdlib \<Rightarrow> string \<Rightarrow> message list \<Rightarrow> exchange \<Rightarrow> exchange" where
  "send_all lib meth [] st = st"
| "send_all lib meth (m # ms) st = send_all lib meth ms (snd (send lib meth m st))"

text \<open>Two states agree on the variables of the response.\<close>

definition same_response :: "exchange \<Rightarrow> exchange \<Rightarrow> bool" where
  "same_response s t =
     (response_started s = response_started t \<and> response_complete s = response_complete t
      \<and> raw s = raw t \<and> template s = template t \<and> context' s = context' t)"

text \<open>
  A history of one exchange: the calls that an application has made to the two callables,
  whatever it did with their outcomes.
\<close>

datatype call = Receive | Send message

fun calls :: "stdlib \<Rightarrow> string \<Rightarrow> call list \<Rightarrow> exchange \<Rightarrow> exchange option" where
  "calls lib meth [] st = Some st"
| "calls lib meth (Receive # cs) st =
     (case receive lib st of None \<Rightarrow> None | Some (m, st') \<Rightarrow> calls lib meth cs st')"
| "calls lib meth (Send m # cs) st = calls lib meth cs (snd (send lib meth m st))"

definition msg_type :: "message \<Rightarrow> string \<Rightarrow> bool" where
  "msg_type m t = (m ''type'' = Some (VStr t))"

section \<open>The duplex session bridge: construction\<close>

text \<open>
  \<^verbatim>\<open>_send_queue\<close> holds what the application's thread has put: a message from
  \<^verbatim>\<open>_asgi_send\<close>, or the failure that \<^verbatim>\<open>_run\<close> caught.
\<close>

datatype item = Msg message | Exc exn

definition websocket_connect :: message where
  "websocket_connect = [''type'' \<mapsto> VStr ''websocket.connect'']"

text \<open>
  The thread \<^verbatim>\<open>_run\<close> up to the first item it puts on \<^verbatim>\<open>_send_queue\<close>, started
  with \<^verbatim>\<open>_receive_queue\<close> holding \<open>q\<close>. Until that item arrives the constructor is
  blocked in \<^verbatim>\<open>_send_queue.get()\<close> and puts nothing more, so the thread alone decides
  it: \<^verbatim>\<open>_asgi_receive\<close> takes the head of the queue and polls for ever on an empty
  one, \<^verbatim>\<open>_asgi_send\<close> puts its message, a failure of the application is put by
  \<^verbatim>\<open>_run\<close>, and an application that returns puts nothing. \<open>None\<close> is the thread
  that never puts an item.
\<close>

primrec first_item :: "app \<Rightarrow> message list \<Rightarrow> item option" where
  "first_item Return q = None"
| "first_item (Raise e) q = Some (Exc e)"
| "first_item (AwaitReceive k) q =
     (case q of [] \<Rightarrow> None | m # q' \<Rightarrow> first_item (k m) q')"
| "first_item (AwaitSend m k) q = Some (Msg m)"

text \<open>\<^verbatim>\<open>WebSocketTestSession._raise_on_close\<close>: the failure it raises, if any.\<close>

definition raise_on_close :: "message \<Rightarrow> exn option" where
  "raise_on_close message =
     (case message ''type'' of
        None \<Rightarrow> Some (KeyError ''type'')
      | Some t \<Rightarrow>
          if t = VStr ''websocket.close''
          then Some (WebSocketDisconnect (dict_get message ''code'' (VInt 1000)))
          else None)"

record websocket_session =
  accepted_subprotocol :: pyval

text \<open>
  \<^verbatim>\<open>WebSocketTestSession.__init__\<close>: the failure it raises or the session it
  builds; \<open>None\<close> when \<^verbatim>\<open>self.receive()\<close> blocks for ever. The argument is the
  coroutine of the application for the session's scope.
\<close>

definition WebSocketTestSession_init :: "app \<Rightarrow> (exn + websocket_session) option" where
  "WebSocketTestSession_init a =
     (case first_item a [websocket_connect] of
        None \<Rightarrow> None
      | Some (Exc e) \<Rightarrow> Some (Inl e)
      | Some (Msg message) \<Rightarrow>
          (case raise_on_close message of
             Some e \<Rightarrow> Some (Inl e)
           | None \<Rightarrow>
               Some (Inr \<lparr>accepted_subprotocol = dict_get message ''subprotocol'' VNone\<rparr>)))"

section \<open>The lifecycle bridge: startup\<close>

text \<open>
  The task \<^verbatim>\<open>self.task\<close> running \<^verbatim>\<open>lifespan()\<close>: still awaiting a message,
  finished, or failed. \<^verbatim>\<open>task.result()\<close> raises the failure of a failed task.
\<close>

datatype task = Pending | Finished | Failed exn

definition task_result :: "task \<Rightarrow> exn option" where
  "task_result t =
     (case t of Pending \<Rightarrow> Some InvalidStateError
      | Finished \<Rightarrow> None
      | Failed e \<Rightarrow> Some e)"

definition lifespan_startup :: message where
  "lifespan_startup = [''type'' \<mapsto> VStr ''lifespan.startup'']"

text \<open>
  \<^verbatim>\<open>TestClient.lifespan\<close> on the loop's single thread, given the messages \<open>q\<close> that
  \<^verbatim>\<open>receive_queue\<close> is to hold: what the task puts on \<^verbatim>\<open>send_queue\<close> in order,
  and how it stands afterwards. \<^verbatim>\<open>receive_queue.get\<close> suspends the task on an empty
  queue, \<^verbatim>\<open>send_queue.put\<close> never suspends it, and the \<^verbatim>\<open>finally\<close> clause puts
  the marker \<^verbatim>\<open>None\<close> when the application returns or raises.
\<close>

primrec lifespan :: "app \<Rightarrow> message list \<Rightarrow> message option list \<times> task" where
  "lifespan Return q = ([None], Finished)"
| "lifespan (Raise e) q = ([None], Failed e)"
| "lifespan (AwaitReceive k) q =
     (case q of [] \<Rightarrow> ([], Pending) | m # q' \<Rightarrow> lifespan (k m) q')"
| "lifespan (AwaitSend m k) q =
     (case lifespan (k None) q of (out, t) \<Rightarrow> (Some m # out, t))"

text \<open>
  \<^verbatim>\<open>TestClient.wait_startup\<close> against the queue contents \<open>out\<close> and the task \<open>t\<close>:
  the failure it raises, or the messages left on \<^verbatim>\<open>send_queue\<close> when it returns;
  \<open>None\<close> when \<^verbatim>\<open>send_queue.get()\<close> waits for a message that never comes.
  Subscripting the marker \<^verbatim>\<open>None\<close> raises \<^verbatim>\<open>TypeError\<close>.
\<close>

definition wait_startup ::
  "message option list \<Rightarrow> task \<Rightarrow> (exn + message option list) option" where
  "wait_startup out t =
     (case out of
        [] \<Rightarrow> None
      | message # out1 \<Rightarrow>
          (case (if message = None then task_result t else None) of
             Some e \<Rightarrow> Some (Inl e)
           | None \<Rightarrow>
               (case message of
                  None \<Rightarrow> Some (Inl TypeError)
                | Some m \<Rightarrow>
                    (case m ''type'' of
                       None \<Rightarrow> Some (Inl (KeyError ''type''))
                     | Some ty \<Rightarrow>
                         if \<not> (ty = VStr ''lifespan.startup.complete''
                                \<or> ty = VStr ''lifespan.startup.failed'')
                         then Some (Inl (AssertionError []))
                         else if ty = VStr ''lifespan.startup.failed'' then
                           (case out1 of
                              [] \<Rightarrow> None
                            | message2 # out2 \<Rightarrow>
                                (case (if message2 = None then task_result t else None) of
                                   Some e \<Rightarrow> Some (Inl e)
                                 | None \<Rightarrow> Some (Inr out2)))
                         else Some (Inr out1)))))"

text \<open>
  \<^verbatim>\<open>TestClient.__enter__\<close>: the task is created, then \<^verbatim>\<open>wait_startup\<close> puts
  \<^verbatim>\<open>lifespan.startup\<close> on \<^verbatim>\<open>receive_queue\<close> and is run to completion. The
  argument is the coroutine of the application for the lifespan scope.
\<close>

definition TestClient_enter :: "app \<Rightarrow> (exn + message option list) option" where
  "TestClient_enter a =
     (case lifespan a [lifespan_startup] of (out, t) \<Rightarrow> wait_startup out t)"

section \<open>The application shape normalizer\<close>

text \<open>
  What \<^verbatim>\<open>_is_asgi3\<close> observes of the application value: \<^verbatim>\<open>inspect.isclass(app)\<close>,
  \<^verbatim>\<open>hasattr(app, "__await__")\<close>, \<^verbatim>\<open>inspect.isfunction(app)\<close>,
  \<^verbatim>\<open>asyncio.iscoroutinefunction(app)\<close>, and the attribute \<^verbatim>\<open>__call__\<close>: absent, or
  present with the answer of \<^verbatim>\<open>asyncio.iscoroutinefunction\<close> for it.
\<close>

record app_value =
  isclass :: bool
  has_await :: bool
  isfunction :: bool
  iscoroutinefunction :: bool
  call_attr :: "bool option"

definition is_asgi3 :: "app_value \<Rightarrow> bool" where
  "is_asgi3 a =
     (if isclass a then has_await a
      else if isfunction a then iscoroutinefunction a
      else (case call_attr a of None \<Rightarrow> False | Some c \<Rightarrow> c))"

text \<open>A value that Python can call at all: a class, a function, or an object with \<^verbatim>\<open>__call__\<close>.\<close>

definition callable :: "app_value \<Rightarrow> bool" where
  "callable a = (isclass a \<or> isfunction a \<or> call_attr a \<noteq> None)"

datatype asgi_app = ASGI3 app_value | WrapASGI2 app_value

record asgi_adapter =
  adapter_app :: asgi_app
  raise_server_exceptions :: bool
  root_path :: string

record test_client =
  mounts :: "(string \<times> asgi_adapter) list"
  client_headers :: "(string \<times> string) list"
  client_app :: asgi_app
  base_url :: string

text \<open>
  \<^verbatim>\<open>TestClient.__init__\<close>, with the failure it would raise on the left. The headers
  are those that the constructor adds to the session's own.
\<close>

definition TestClient_init ::
  "app_value \<Rightarrow> string \<Rightarrow> bool \<Rightarrow> string \<Rightarrow> exn + test_client" where
  "TestClient_init a url rse rp =
     (let asgi = (if is_asgi3 a then ASGI3 a else WrapASGI2 a);
          adapter = \<lparr>adapter_app = asgi, raise_server_exceptions = rse, root_path = rp\<rparr>
      in Inr \<lparr>mounts = [(''http://'', adapter), (''https://'', adapter),
                         (''ws://'', adapter), (''wss://'', adapter)],
              client_headers = [(''user-agent'', ''testclient'')],
              client_app = asgi,
              base_url = url\<rparr>)"

section \<open>A library instance for the examples\<close>

text \<open>
  The examples below exchange ASCII text only, where UTF-8 maps a character to the byte of
  its code. \<open>ascii_lib\<close> is Python's codec on such text and decodes nothing else; its
  phrase table has the entries that the examples look up.
\<close>

definition ascii_lib :: stdlib where
  "ascii_lib =
     \<lparr>utf8_encode = map (\<lambda>c. of_nat (of_char c)),
      utf8_decode = (\<lambda>bs. if list_all (\<lambda>b. b < 128) bs
                            then Some (map (\<lambda>b. char_of (unat b)) bs) else None),
      status_phrase = (\<lambda>n. if n = 200 then Some ''OK''
                            else if n = 404 then Some ''Not Found''
                            else if n = 500 then Some ''Internal Server Error''
                            else None)\<rparr>"

text \<open>
  The examples need a library too. \<open>kwargs_response\<close> is the one that fails for nothing
  and whose response object is the keyword arguments it was given.
\<close>

definition kwargs_response :: "raw_kwargs http_library" where
  "kwargs_response req K = Inr K"

section \<open>Messages of the examples and of the statements\<close>

definition http_response_start :: "pyval \<Rightarrow> (bytes \<times> bytes) list \<Rightarrow> message" where
  "http_response_start S H =
     [''type'' \<mapsto> VStr ''http.response.start'', ''status'' \<mapsto> S,
      ''headers'' \<mapsto> VList (map (\<lambda>(k, v). VList [VBytes k, VBytes v]) H)]"

definition http_response_body :: "bytes \<Rightarrow> bool \<Rightarrow> message" where
  "http_response_body b mb =
     [''type'' \<mapsto> VStr ''http.response.body'', ''body'' \<mapsto> VBytes b,
      ''more_body'' \<mapsto> VBool mb]"

definition http_response_template :: "pyval \<Rightarrow> pyval \<Rightarrow> message" where
  "http_response_template t c =
     [''type'' \<mapsto> VStr ''http.response.template'', ''template'' \<mapsto> t, ''context'' \<mapsto> c]"

text \<open>
  The text pairs \<open>hs\<close> are the byte pairs \<open>H\<close> decoded one by one: as many, in the
  same order, each name and each value the UTF-8 reading of its bytes.
\<close>

definition decodes_to ::
  "stdlib \<Rightarrow> (bytes \<times> bytes) list \<Rightarrow> (string \<times> string) list \<Rightarrow> bool" where
  "decodes_to lib H hs =
     list_all2 (\<lambda>(k, v) (k', v'). utf8_decode lib k = Some k' \<and> utf8_decode lib v = Some v')
       H hs"

text \<open>
  Two states of an exchange for a \<^verbatim>\<open>GET\<close> request without body: after a response
  start with status 200 and no headers, and after the closing body chunk
  \<^verbatim>\<open>b"\x01"\<close> that follows it.
\<close>

definition started_example :: exchange where
  "started_example =
     snd (send ascii_lib ''GET'' (http_response_start (VInt 200) []) (initial_exchange VNone))"

definition completed_example :: exchange where
  "completed_example =
     snd (send ascii_lib ''GET'' (http_response_body [1] False) started_example)"

text \<open>
  An application that reads the request event and then answers with status 200, the given
  header pairs and the body chunks \<^verbatim>\<open>b"\x01"\<close> and \<^verbatim>\<open>b"\x02"\<close>.
\<close>

definition two_chunk_app :: "(bytes \<times> bytes) list \<Rightarrow> app" where
  "two_chunk_app H =
     AwaitReceive (\<lambda>m. sends [http_response_start (VInt 200) H, http_response_body [1] True,
                                http_response_body [2] False])"

text \<open>Messages of the duplex and lifecycle examples.\<close>

definition websocket_close :: "int \<Rightarrow> message" where
  "websocket_close code = [''type'' \<mapsto> VStr ''websocket.close'', ''code'' \<mapsto> VInt code]"

definition websocket_accept :: "string \<Rightarrow> message" where
  "websocket_accept sp = [''type'' \<mapsto> VStr ''websocket.accept'', ''subprotocol'' \<mapsto> VStr sp]"

definition lifespan_startup_failed :: message where
  "lifespan_startup_failed = [''type'' \<mapsto> VStr ''lifespan.startup.failed'']"

text \<open>
  A value that declares no calling convention: not a class, not a function, and without
  \<^verbatim>\<open>__call__\<close>, as the integer \<^verbatim>\<open>42\<close> is.
\<close>

definition not_callable :: app_value where
  "not_callable = \<lparr>isclass = False, has_await = False, isfunction = False,
                    iscoroutinefunction = False, call_attr = None\<rparr>"

text \<open>\<^verbatim>\<open>TestClient(app)\<close>, with the defaults of the constructor's signature.\<close>

definition TestClient_default :: "app_value \<Rightarrow> exn + test_client" where
  "TestClient_default a = TestClient_init a ''http://testserver'' True []"

section \<open>The waiting loop and the request events\<close>

lemma wait_Some: "wait_response_complete st = Some st' \<Longrightarrow> response_complete st"
  by (rule wait_response_complete.raw_induct[rotated 1, where P = "\<lambda>s s'. response_complete s"])
     (auto split: if_splits)

lemma wait_eq [code]:
  "wait_response_complete st = (if response_complete st then Some st else None)"
proof (cases "response_complete st")
  case True
  then show ?thesis by (subst wait_response_complete.simps) simp
next
  case False
  then have "wait_response_complete st = None"
    using wait_Some[of st] by (cases "wait_response_complete st") auto
  with False show ?thesis by simp
qed

declare read_request_events.simps [simp del]

lemma receive_gen_Cons:
  "\<not> request_complete st \<Longrightarrow> request_body st = VGen (c # cs) \<Longrightarrow>
   receive lib st = Some (http_request_more (encode_chunk lib c), st\<lparr>request_body := VGen cs\<rparr>)"
  by (simp add: receive_def)

lemma receive_gen_Nil:
  "\<not> request_complete st \<Longrightarrow> request_body st = VGen [] \<Longrightarrow>
   receive lib st = Some (http_request (VBytes []), st\<lparr>request_complete := True\<rparr>)"
  by (simp add: receive_def)

lemma more_body_of_more: "dict_get (http_request_more b) ''more_body'' d = VBool True"
  by (simp add: dict_get_def http_request_more_def)

lemma more_body_of_last: "dict_get (http_request b) ''more_body'' d = d"
  by (simp add: dict_get_def http_request_def)

lemma read_generator:
  "\<not> request_complete st \<Longrightarrow> request_body st = VGen cs \<Longrightarrow>
   read_request_events lib st =
     map (\<lambda>c. http_request_more (encode_chunk lib c)) cs @ [http_request (VBytes [])]"
proof (induction cs arbitrary: st)
  case Nil
  then show ?case
    by (subst read_request_events.simps) (simp add: receive_gen_Nil more_body_of_last)
next
  case (Cons c cs)
  have "read_request_events lib (st\<lparr>request_body := VGen cs\<rparr>) =
      map (\<lambda>c. http_request_more (encode_chunk lib c)) cs @ [http_request (VBytes [])]"
    using Cons.prems by (intro Cons.IH) simp_all
  then show ?case
    using Cons.prems
    by (subst read_request_events.simps) (simp add: receive_gen_Cons more_body_of_more)
qed

text \<open>
  Claim C1, as the code has it. For a generator body that yields the chunks \<open>cs\<close>, an
  application that reads the whole request is given one event more than there are chunks:
  one event per chunk, in order, with \<^verbatim>\<open>more_body\<close> true and the chunk as its body (a
  bytes chunk as it is, a \<^verbatim>\<open>str\<close> chunk encoded), and then a closing event with an
  empty body and no \<^verbatim>\<open>more_body\<close> key. The generator cannot tell that a chunk is its
  last, so the last chunk too is sent with \<^verbatim>\<open>more_body\<close> true.
\<close>

theorem generator_body_events:
  "read_request_events lib (initial_exchange (VGen cs)) =
     map (\<lambda>c. http_request_more (encode_chunk lib c)) cs @ [http_request (VBytes [])]
   \<and> length (read_request_events lib (initial_exchange (VGen cs))) = Suc (length cs)
   \<and> encode_chunk lib (VBytes b) = VBytes b
   \<and> http_request_more v ''body'' = Some v
   \<and> http_request_more v ''more_body'' = Some (VBool True)
   \<and> http_request v ''more_body'' = None"
proof -
  have "read_request_events lib (initial_exchange (VGen cs)) =
     map (\<lambda>c. http_request_more (encode_chunk lib c)) cs @ [http_request (VBytes [])]"
    by (rule read_generator) (simp_all add: initial_exchange_def)
  then show ?thesis
    by (simp add: encode_chunk_def http_request_more_def http_request_def)
qed

text \<open>
  Claim C1 as stated fails: a generator yielding the single chunk \<^verbatim>\<open>b"\x01"\<close> gives
  two \<^verbatim>\<open>http.request\<close> events, not one, and the event carrying the chunk has
  \<^verbatim>\<open>more_body\<close> true.
\<close>

theorem generator_body_events_counterexample:
  "length (read_request_events ascii_lib (initial_exchange (VGen [VBytes [1]]))) = 2
   \<and> read_request_events ascii_lib (initial_exchange (VGen [VBytes [1]])) =
       [http_request_more (VBytes [1]), http_request (VBytes [])]"
  using read_generator[of "initial_exchange (VGen [VBytes [1]])" "[VBytes [1]]" ascii_lib]
  by (simp add: initial_exchange_def encode_chunk_def)

section \<open>The response collected from the application's messages\<close>

lemma decode_items_decodes_to:
  "decodes_to lib H hs \<Longrightarrow>
   decode_items lib (map (\<lambda>(k, v). VList [VBytes k, VBytes v]) H) = Inr hs"
  by (induction H arbitrary: hs)
     (auto simp: decodes_to_def decode_def unpack2_def iterate_def list_all2_Cons1)

lemma send_start_ok:
  assumes "\<not> response_started st" and "decodes_to lib H hs"
  shows "send lib meth (http_response_start S H) st =
     (None, st\<lparr>raw := (raw st)\<lparr>rk_version := Some 11, rk_status := Some S,
                   rk_reason := Some (get_reason_phrase lib S),
                   rk_headers := Some hs,
                   rk_preload_content := Some False,
                   rk_original_response := Some (MockOriginalResponse hs)\<rparr>,
               response_started := True\<rparr>)"
  using assms
  by (simp add: send_def send_start_def http_response_start_def decode_headers_def
        iterate_def decode_items_decodes_to Let_def)

lemma send_body_ok:
  assumes "response_started st" and "\<not> response_complete st" and "meth \<noteq> ''HEAD''"
  shows "send lib meth (http_response_body b mb) st =
     (None, if mb then st\<lparr>raw := (raw st)\<lparr>rk_body := bio_write (rk_body (raw st)) b\<rparr>\<rparr>
            else st\<lparr>raw := (raw st)\<lparr>rk_body := bio_seek0 (bio_write (rk_body (raw st)) b)\<rparr>,
                    response_complete := True\<rparr>)"
  using assms
  by (simp add: send_def send_body_def http_response_body_def dict_get_def Let_def)

lemma bio_write_end:
  "pos b = length (buf b) \<Longrightarrow>
   bio_write b d = b\<lparr>buf := buf b @ d, pos := length (buf b) + length d\<rparr>"
  by (simp add: bio_write_def)

text \<open>The three calls of \<^verbatim>\<open>send\<close>, from a state without response.\<close>

lemma three_sends:
  assumes "meth \<noteq> ''HEAD''" and "decodes_to lib H hs"
    and "\<not> response_started t" and "\<not> response_complete t" and "rk_body (raw t) = BytesIO"
  shows "\<exists>s1 s2.
      send lib meth (http_response_start S H) t = (None, s1)
    \<and> send lib meth (http_response_body b1 True) s1 = (None, s2)
    \<and> send lib meth (http_response_body b2 False) s2 =
        (None, t\<lparr>raw := (raw t)\<lparr>rk_body := \<lparr>buf = b1 @ b2, pos = 0\<rparr>, rk_version := Some 11,
                    rk_status := Some S, rk_reason := Some (get_reason_phrase lib S),
                    rk_headers := Some hs, rk_preload_content := Some False,
                    rk_original_response := Some (MockOriginalResponse hs)\<rparr>,
                response_started := True, response_complete := True\<rparr>)"
proof -
  define s1 where "s1 = t\<lparr>raw := (raw t)\<lparr>rk_version := Some 11, rk_status := Some S,
                   rk_reason := Some (get_reason_phrase lib S),
                   rk_headers := Some hs,
                   rk_preload_content := Some False,
                   rk_original_response := Some (MockOriginalResponse hs)\<rparr>,
               response_started := True\<rparr>"
  define s2 where "s2 = s1\<lparr>raw := (raw s1)\<lparr>rk_body := bio_write (rk_body (raw s1)) b1\<rparr>\<rparr>"
  have e1: "send lib meth (http_response_start S H) t = (None, s1)"
    unfolding s1_def by (rule send_start_ok[OF assms(3) assms(2)])
  have s1p: "response_started s1" "\<not> response_complete s1"
    using assms(4) by (simp_all add: s1_def)
  have e2: "send lib meth (http_response_body b1 True) s1 = (None, s2)"
    using send_body_ok[OF s1p assms(1), of lib b1 True] by (simp add: s2_def)
  have s2p: "response_started s2" "\<not> response_complete s2"
    using s1p by (simp_all add: s2_def)
  have w1: "bio_write BytesIO b1 = \<lparr>buf = b1, pos = length b1\<rparr>"
    by (simp add: bio_write_end BytesIO_def)
  have w2: "bio_seek0 (bio_write \<lparr>buf = b1, pos = length b1\<rparr> b2) = \<lparr>buf = b1 @ b2, pos = 0\<rparr>"
    by (simp add: bio_write_end bio_seek0_def)
  have e3: "send lib meth (http_response_body b2 False) s2 =
        (None, t\<lparr>raw := (raw t)\<lparr>rk_body := \<lparr>buf = b1 @ b2, pos = 0\<rparr>, rk_version := Some 11,
                    rk_status := Some S, rk_reason := Some (get_reason_phrase lib S),
                    rk_headers := Some hs, rk_preload_content := Some False,
                    rk_original_response := Some (MockOriginalResponse hs)\<rparr>,
                response_started := True, response_complete := True\<rparr>)"
    using send_body_ok[OF s2p assms(1), of lib b2 False] assms(5)
    by (simp add: s2_def s1_def w1 w2)
  from e1 e2 e3 show ?thesis by blast
qed

lemma send_all_three:
  assumes "meth \<noteq> ''HEAD''" and "decodes_to lib H hs"
    and "\<not> response_started t" and "\<not> response_complete t" and "rk_body (raw t) = BytesIO"
  shows "send_all lib meth [http_response_start S H, http_response_body b1 True,
                            http_response_body b2 False] t =
         t\<lparr>raw := (raw t)\<lparr>rk_body := \<lparr>buf = b1 @ b2, pos = 0\<rparr>, rk_version := Some 11,
                    rk_status := Some S, rk_reason := Some (get_reason_phrase lib S),
                    rk_headers := Some hs, rk_preload_content := Some False,
                    rk_original_response := Some (MockOriginalResponse hs)\<rparr>,
           response_started := True, response_complete := True\<rparr>"
  using three_sends[OF assms, of S b1 b2] by auto

lemma run_three:
  assumes "meth \<noteq> ''HEAD''" and "decodes_to lib H hs"
    and "\<not> response_started t" and "\<not> response_complete t" and "rk_body (raw t) = BytesIO"
  shows "run_until_complete lib meth
           (sends [http_response_start S H, http_response_body b1 True,
                   http_response_body b2 False]) t =
         Some (None, t\<lparr>raw := (raw t)\<lparr>rk_body := \<lparr>buf = b1 @ b2, pos = 0\<rparr>,
                    rk_version := Some 11,
                    rk_status := Some S, rk_reason := Some (get_reason_phrase lib S),
                    rk_headers := Some hs, rk_preload_content := Some False,
                    rk_original_response := Some (MockOriginalResponse hs)\<rparr>,
           response_started := True, response_complete := True\<rparr>)"
    and "sent lib meth
           (sends [http_response_start S H, http_response_body b1 True,
                   http_response_body b2 False]) t =
         [http_response_start S H, http_response_body b1 True, http_response_body b2 False]"
  using three_sends[OF assms, of S b1 b2] by auto

text \<open>
  \<^verbatim>\<open>receive\<close> leaves the variables of the response alone, and \<^verbatim>\<open>send\<close> reads
  and writes no others. So the response variables at the end of a run are those that the
  sent messages alone produce.
\<close>

lemma receive_same: "receive lib s = Some (m, s') \<Longrightarrow> same_response s' s"
  by (auto simp: receive_def wait_eq same_response_def split: if_splits pyval.splits list.splits)

lemma send_start_same:
  "same_response s t \<Longrightarrow>
   fst (send_start lib m s) = fst (send_start lib m t)
   \<and> same_response (snd (send_start lib m s)) (snd (send_start lib m t))"
  by (auto simp: same_response_def send_start_def Let_def split: option.splits sum.splits)

lemma send_body_same:
  "same_response s t \<Longrightarrow>
   fst (send_body meth m s) = fst (send_body meth m t)
   \<and> same_response (snd (send_body meth m s)) (snd (send_body meth m t))"
  by (auto simp: same_response_def send_body_def Let_def split: pyval.splits)

lemma send_template_same:
  "same_response s t \<Longrightarrow>
   fst (send_template m s) = fst (send_template m t)
   \<and> same_response (snd (send_template m s)) (snd (send_template m t))"
  by (auto simp: same_response_def send_template_def Let_def split: option.splits)

lemma send_same:
  "same_response s t \<Longrightarrow>
   fst (send lib meth m s) = fst (send lib meth m t)
   \<and> same_response (snd (send lib meth m s)) (snd (send lib meth m t))"
  using send_start_same[of s t lib m] send_body_same[of s t meth m] send_template_same[of s t m]
  by (simp add: send_def split: option.splits)

lemma run_sent:
  "run_until_complete lib meth a s = Some (x, s') \<Longrightarrow> same_response s t \<Longrightarrow>
   same_response s' (send_all lib meth (sent lib meth a s) t)"
proof (induction a arbitrary: s t)
  case Return
  then show ?case by simp
next
  case (Raise e)
  then show ?case by simp
next
  case (AwaitReceive k)
  from AwaitReceive.prems(1) obtain m s1 where r: "receive lib s = Some (m, s1)"
    and c: "run_until_complete lib meth (k m) s1 = Some (x, s')"
    by (auto split: option.splits)
  from receive_same[OF r] AwaitReceive.prems(2) have "same_response s1 t"
    by (simp add: same_response_def)
  with c have "same_response s' (send_all lib meth (sent lib meth (k m) s1) t)"
    using AwaitReceive.IH[of "k m" s1 t] by auto
  with r show ?case by simp
next
  case (AwaitSend m k)
  obtain r s1 where e: "send lib meth m s = (r, s1)" by (cases "send lib meth m s")
  with AwaitSend.prems(1) have c: "run_until_complete lib meth (k r) s1 = Some (x, s')"
    by simp
  from send_same[OF AwaitSend.prems(2), of lib meth m] e
  have "same_response s1 (snd (send lib meth m t))" by simp
  with c have "same_response s' (send_all lib meth (sent lib meth (k r) s1)
      (snd (send lib meth m t)))"
    using AwaitSend.IH[of "k r" s1 "snd (send lib meth m t)"] by auto
  with e show ?case by simp
qed

lemma char_of_examples:
  "char_of (88::nat) = CHR ''X''" "char_of (120::nat) = CHR ''x''" "char_of (49::nat) = CHR ''1''"
  by code_simp+

text \<open>
  Claim C2, as the code has it. Take a request whose method is not \<^verbatim>\<open>HEAD\<close> and an
  application, whatever it receives in between, whose sent messages are
  \<^verbatim>\<open>http.response.start\<close> with status \<open>S\<close> and header pairs \<open>H\<close> that decode
  as UTF-8 to the text pairs \<open>hs\<close>, then the body chunks \<open>b1\<close> with \<^verbatim>\<open>more_body\<close>
  true and \<open>b2\<close> with \<^verbatim>\<open>more_body\<close> false; let it end without a failure, or let
  \<^verbatim>\<open>raise_server_exceptions\<close> be false. Then the adapter returns what the HTTP
  client library builds from these keyword arguments: the status \<open>S\<close>, the headers
  \<open>hs\<close>, that is the pairs of \<open>H\<close> in their order and with their names in the case
  the application wrote them, and a body stream that holds \<open>b1 + b2\<close> and stands at its
  start. No template is attached. What the response object shows of these arguments is the
  library's matter.
\<close>

theorem response_of_start_and_two_chunks:
  assumes "method' req \<noteq> ''HEAD''" and "decodes_to lib H hs"
    and "run_until_complete lib (method' req) a (initial_exchange (body req)) = Some (x, st)"
    and "sent lib (method' req) a (initial_exchange (body req)) =
           [http_response_start S H, http_response_body b1 True, http_response_body b2 False]"
    and "x = None \<or> \<not> rse"
  shows "ASGIAdapter_send lib library rse req a =
           Some (make_response library req (raw st) VNone VNone)
       \<and> rk_status (raw st) = Some S
       \<and> rk_headers (raw st) = Some hs
       \<and> rk_body (raw st) = \<lparr>buf = b1 @ b2, pos = 0\<rparr>
       \<and> bio_read (rk_body (raw st)) = b1 @ b2"
proof -
  let ?i = "initial_exchange (body req)"
  have i: "\<not> response_started ?i" "\<not> response_complete ?i" "rk_body (raw ?i) = BytesIO"
    "template ?i = VNone" "context' ?i = VNone"
    by (simp_all add: initial_exchange_def)
  let ?K = "(raw ?i)\<lparr>rk_body := \<lparr>buf = b1 @ b2, pos = 0\<rparr>, rk_version := Some 11,
                    rk_status := Some S, rk_reason := Some (get_reason_phrase lib S),
                    rk_headers := Some hs, rk_preload_content := Some False,
                    rk_original_response := Some (MockOriginalResponse hs)\<rparr>"
  have sa: "send_all lib (method' req)
      [http_response_start S H, http_response_body b1 True, http_response_body b2 False] ?i =
      ?i\<lparr>raw := ?K, response_started := True, response_complete := True\<rparr>"
    by (rule send_all_three[OF assms(1) assms(2) i(1) i(2) i(3)])
  have "same_response st (send_all lib (method' req) (sent lib (method' req) a ?i) ?i)"
    using assms(3) by (rule run_sent) (simp add: same_response_def)
  then have "same_response st (?i\<lparr>raw := ?K, response_started := True,
      response_complete := True\<rparr>)"
    unfolding assms(4) sa .
  then have sr: "response_started st" "template st = VNone" "context' st = VNone"
    and K: "raw st = ?K"
    using i by (simp_all add: same_response_def)
  have "ASGIAdapter_send lib library rse req a =
           Some (make_response library req (raw st) VNone VNone)"
    using assms(3) assms(5) sr
    by (auto simp: ASGIAdapter_send_def finish_exchange_def split: option.splits)
  then show ?thesis by (simp add: K bio_read_def)
qed

text \<open>
  The theorem of claim C2 at a \<^verbatim>\<open>GET\<close> request to the application that receives
  the request event and then answers with status 200, the header \<^verbatim>\<open>(b"x", b"1")\<close>
  and the chunks \<^verbatim>\<open>b"\x01"\<close> and \<^verbatim>\<open>b"\x02"\<close>.
\<close>

theorem response_of_start_and_two_chunks_witness:
  "method' \<lparr>method' = ''GET'', body = VNone\<rparr> \<noteq> ''HEAD''
   \<and> decodes_to ascii_lib [([120], [49])] [(''x'', ''1'')]
   \<and> sent ascii_lib ''GET'' (two_chunk_app [([120], [49])]) (initial_exchange VNone) =
       [http_response_start (VInt 200) [([120], [49])], http_response_body [1] True,
        http_response_body [2] False]
   \<and> (case ASGIAdapter_send ascii_lib kwargs_response True \<lparr>method' = ''GET'', body = VNone\<rparr>
              (two_chunk_app [([120], [49])]) of
         Some (Inr r) \<Rightarrow>
           rk_status (response_obj r) = Some (VInt 200)
           \<and> rk_headers (response_obj r) = Some [(''x'', ''1'')]
           \<and> bio_read (rk_body (response_obj r)) = [1, 2]
           \<and> response_template r = None
       | _ \<Rightarrow> False)"
proof -
  let ?req = "\<lparr>method' = ''GET'', body = VNone\<rparr>"
  let ?H = "[([120], [49])] :: (bytes \<times> bytes) list"
  let ?t = "(initial_exchange VNone)\<lparr>request_complete := True\<rparr>"
  have d: "decodes_to ascii_lib ?H [(''x'', ''1'')]"
    by (simp add: decodes_to_def ascii_lib_def char_of_examples)
  have m: "method' ?req \<noteq> ''HEAD''" by simp
  have r: "receive ascii_lib (initial_exchange VNone) = Some (http_request (VBytes []), ?t)"
    by (simp add: receive_def initial_exchange_def)
  have t: "\<not> response_started ?t" "\<not> response_complete ?t" "rk_body (raw ?t) = BytesIO"
    by (simp_all add: initial_exchange_def)
  note three = run_three[OF _ d t, of "''GET''" "VInt 200" "[1]" "[2]"]
  obtain st where run: "run_until_complete ascii_lib (method' ?req) (two_chunk_app ?H)
      (initial_exchange (body ?req)) = Some (None, st)"
    using three(1) r by (simp add: two_chunk_app_def)
  have s: "sent ascii_lib (method' ?req) (two_chunk_app ?H) (initial_exchange (body ?req)) =
       [http_response_start (VInt 200) ?H, http_response_body [1] True,
        http_response_body [2] False]"
    using three(2) r by (simp add: two_chunk_app_def)
  show ?thesis
    using response_of_start_and_two_chunks[OF m d run s, of True kwargs_response] d s
    by (simp add: make_response_def kwargs_response_def bio_read_def)
qed

text \<open>
  Claim C2 as stated fails: the header name \<^verbatim>\<open>b"X"\<close> is handed on as \<^verbatim>\<open>"X"\<close>,
  not lower-cased.
\<close>

theorem response_headers_counterexample:
  "(case ASGIAdapter_send ascii_lib kwargs_response True \<lparr>method' = ''GET'', body = VNone\<rparr>
            (two_chunk_app [([88], [49])]) of
      Some (Inr r) \<Rightarrow> rk_headers (response_obj r)
    | _ \<Rightarrow> None) = Some [(''X'', ''1'')]
   \<and> ''X'' \<noteq> ''x''"
proof -
  let ?t = "(initial_exchange VNone)\<lparr>request_complete := True\<rparr>"
  have d: "decodes_to ascii_lib [([88], [49])] [(''X'', ''1'')]"
    by (simp add: decodes_to_def ascii_lib_def char_of_examples)
  have r: "receive ascii_lib (initial_exchange VNone) = Some (http_request (VBytes []), ?t)"
    by (simp add: receive_def initial_exchange_def)
  have t: "\<not> response_started ?t" "\<not> response_complete ?t" "rk_body (raw ?t) = BytesIO"
    by (simp_all add: initial_exchange_def)
  show ?thesis
    using run_three(1)[OF _ d t, of "''GET''" "VInt 200" "[1]" "[2]"] r
    by (simp add: ASGIAdapter_send_def finish_exchange_def make_response_def
          kwargs_response_def two_chunk_app_def)
qed

section \<open>What the calls of an exchange preserve\<close>

lemma receive_response_flags:
  "receive lib st = Some (m, st') \<Longrightarrow>
   response_started st' = response_started st \<and> response_complete st' = response_complete st
   \<and> raw st' = raw st"
  by (auto simp: receive_def wait_eq split: if_splits pyval.splits list.splits)

lemma send_keeps_unstarted:
  "\<not> msg_type m ''http.response.start'' \<Longrightarrow> \<not> response_started st \<Longrightarrow>
   \<not> response_started (snd (send lib meth m st))"
  by (auto simp: send_def send_body_def send_template_def msg_type_def Let_def
        split: option.splits)

lemma calls_keep_unstarted:
  "calls lib meth cs st = Some st' \<Longrightarrow> \<not> response_started st \<Longrightarrow>
   \<forall>m. Send m \<in> set cs \<longrightarrow> \<not> msg_type m ''http.response.start'' \<Longrightarrow>
   \<not> response_started st'"
proof (induction cs arbitrary: st)
  case Nil
  then show ?case by simp
next
  case (Cons c cs)
  show ?case
  proof (cases c)
    case Receive
    with Cons.prems(1) obtain m s1 where r: "receive lib st = Some (m, s1)"
      and c: "calls lib meth cs s1 = Some st'"
      by (auto split: option.splits)
    from r Cons.prems(2) have "\<not> response_started s1"
      by (simp add: receive_response_flags)
    with c Cons.prems(3) show ?thesis by (intro Cons.IH[of s1]) auto
  next
    case (Send m)
    with Cons.prems(1) have c: "calls lib meth cs (snd (send lib meth m st)) = Some st'"
      by simp
    from Send Cons.prems(3) have "\<not> msg_type m ''http.response.start''" by simp
    with Cons.prems(2) have "\<not> response_started (snd (send lib meth m st))"
      by (rule send_keeps_unstarted[rotated])
    with c Cons.prems(3) show ?thesis by (intro Cons.IH[of "snd (send lib meth m st)"]) auto
  qed
qed

lemma send_complete_started:
  "response_complete st \<longrightarrow> response_started st \<Longrightarrow>
   response_complete (snd (send lib meth m st)) \<longrightarrow> response_started (snd (send lib meth m st))"
  by (auto simp: send_def send_start_def send_body_def send_template_def Let_def
        split: option.splits sum.splits pyval.splits if_splits)

lemma calls_complete_started:
  "calls lib meth cs st = Some st' \<Longrightarrow> response_complete st \<longrightarrow> response_started st \<Longrightarrow>
   response_complete st' \<longrightarrow> response_started st'"
proof (induction cs arbitrary: st)
  case Nil
  then show ?case by simp
next
  case (Cons c cs)
  show ?case
  proof (cases c)
    case Receive
    with Cons.prems(1) obtain m s1 where r: "receive lib st = Some (m, s1)"
      and c: "calls lib meth cs s1 = Some st'"
      by (auto split: option.splits)
    from r Cons.prems(2) have "response_complete s1 \<longrightarrow> response_started s1"
      by (simp add: receive_response_flags)
    with c show ?thesis by (rule Cons.IH)
  next
    case (Send m)
    with Cons.prems(1) have c: "calls lib meth cs (snd (send lib meth m st)) = Some st'"
      by simp
    from c send_complete_started[OF Cons.prems(2)] show ?thesis by (rule Cons.IH)
  qed
qed

lemma started_example_eq:
  "started_example = (initial_exchange VNone)
     \<lparr>raw := (raw (initial_exchange VNone))\<lparr>rk_version := Some 11, rk_status := Some (VInt 200),
                   rk_reason := Some ''OK'',
                   rk_headers := Some [],
                   rk_preload_content := Some False,
                   rk_original_response := Some (MockOriginalResponse [])\<rparr>,
               response_started := True\<rparr>"
  unfolding started_example_def
  by (subst send_start_ok[where hs = "[]"])
     (simp_all add: initial_exchange_def decodes_to_def get_reason_phrase_def ascii_lib_def)

lemma completed_example_eq:
  "completed_example =
     started_example\<lparr>raw := (raw started_example)\<lparr>rk_body := \<lparr>buf = [1], pos = 0\<rparr>\<rparr>,
                     response_complete := True\<rparr>"
  unfolding completed_example_def
  by (subst send_body_ok)
     (simp_all add: started_example_eq initial_exchange_def bio_write_def bio_seek0_def
        BytesIO_def)

lemma calls_completed_example:
  "calls ascii_lib ''GET''
     [Send (http_response_start (VInt 200) []), Send (http_response_body [1] False)]
     (initial_exchange VNone) = Some completed_example"
  by (simp add: completed_example_def started_example_def)

text \<open>
  Claim C7. Whatever calls the application has made to \<^verbatim>\<open>receive\<close> and
  \<^verbatim>\<open>send\<close> so far, in any order, as long as it has sent no
  \<^verbatim>\<open>http.response.start\<close> message, sending an \<^verbatim>\<open>http.response.body\<close> message
  makes \<^verbatim>\<open>send\<close> raise the assertion failure that names the protocol violation, and
  leaves the state of the exchange as it was.
\<close>

theorem body_before_start_rejected:
  assumes "calls lib meth cs (initial_exchange bd) = Some st"
    and "\<forall>m. Send m \<in> set cs \<longrightarrow> \<not> msg_type m ''http.response.start''"
    and "msg_type message ''http.response.body''"
  shows "send lib meth message st =
    (Some (AssertionError ''Received \"http.response.body\" without \"http.response.start\".''),
     st)"
proof -
  have "\<not> response_started st"
    using assms(1) _ assms(2) by (rule calls_keep_unstarted) (simp add: initial_exchange_def)
  with assms(3) show ?thesis
    by (simp add: send_def send_body_def msg_type_def)
qed

text \<open>
  The theorem of claim C7 after a \<^verbatim>\<open>receive\<close> and a template message: a body
  message is rejected.
\<close>

theorem body_before_start_rejected_witness:
  "calls ascii_lib ''GET'' [Receive, Send (http_response_template (VStr ''index.html'') (VObj 0))]
     (initial_exchange VNone) =
     Some ((initial_exchange VNone)
             \<lparr>request_complete := True, template := VStr ''index.html'', context' := VObj 0\<rparr>)
   \<and> \<not> msg_type (http_response_template (VStr ''index.html'') (VObj 0)) ''http.response.start''
   \<and> msg_type (http_response_body [1] False) ''http.response.body''
   \<and> fst (send ascii_lib ''GET'' (http_response_body [1] False)
        ((initial_exchange VNone)
           \<lparr>request_complete := True, template := VStr ''index.html'', context' := VObj 0\<rparr>)) =
      Some (AssertionError ''Received \"http.response.body\" without \"http.response.start\".'')"
proof -
  let ?st = "(initial_exchange VNone)
             \<lparr>request_complete := True, template := VStr ''index.html'', context' := VObj 0\<rparr>"
  let ?t = "http_response_template (VStr ''index.html'') (VObj 0)"
  have r: "receive ascii_lib (initial_exchange VNone) =
      Some (http_request (VBytes []), (initial_exchange VNone)\<lparr>request_complete := True\<rparr>)"
    by (simp add: receive_def initial_exchange_def)
  have s: "send ascii_lib ''GET'' ?t ((initial_exchange VNone)\<lparr>request_complete := True\<rparr>) =
      (None, ?st)"
    by (simp add: send_def send_template_def http_response_template_def)
  have c: "calls ascii_lib ''GET'' [Receive, Send ?t] (initial_exchange VNone) = Some ?st"
    by (simp add: r s)
  have n: "\<not> msg_type ?t ''http.response.start''"
    by (simp add: msg_type_def http_response_template_def)
  then have a: "\<forall>m. Send m \<in> set [Receive, Send ?t] \<longrightarrow> \<not> msg_type m ''http.response.start''"
    by simp
  have b: "msg_type (http_response_body [1] False) ''http.response.body''"
    by (simp add: msg_type_def http_response_body_def)
  show ?thesis
    using body_before_start_rejected[OF c a b] c n b by simp
qed

text \<open>
  Claim C6, as the code has it. Once the response has completed, whatever the calls that
  led there, \<^verbatim>\<open>send\<close> raises an assertion failure for every
  \<^verbatim>\<open>http.response.start\<close> and every \<^verbatim>\<open>http.response.body\<close> message and leaves
  the state unchanged; an \<^verbatim>\<open>http.response.template\<close> message is still recorded, and
  a message of any other type is accepted and ignored.
\<close>

theorem after_completion:
  assumes "calls lib meth cs (initial_exchange bd) = Some st" and "response_complete st"
  shows "(msg_type m ''http.response.start'' \<longrightarrow>
            send lib meth m st =
              (Some (AssertionError ''Received multiple \"http.response.start\" messages.''), st))
       \<and> (msg_type m ''http.response.body'' \<longrightarrow>
            send lib meth m st =
              (Some (AssertionError ''Received \"http.response.body\" after response completed.''),
               st))
       \<and> (msg_type m ''http.response.template'' \<and> m ''template'' = Some t
            \<and> m ''context'' = Some c \<longrightarrow>
            send lib meth m st = (None, st\<lparr>template := t, context' := c\<rparr>))
       \<and> (m ''type'' = Some ty \<and> ty \<noteq> VStr ''http.response.start''
            \<and> ty \<noteq> VStr ''http.response.body'' \<and> ty \<noteq> VStr ''http.response.template'' \<longrightarrow>
            send lib meth m st = (None, st))"
proof -
  have "response_complete st \<longrightarrow> response_started st"
    using assms(1) by (rule calls_complete_started) (simp add: initial_exchange_def)
  with assms(2) have s: "response_started st" by simp
  show ?thesis
    using s assms(2)
    by (simp add: send_def send_start_def send_body_def send_template_def msg_type_def Let_def)
qed

text \<open>
  The theorem of claim C6 at the completed exchange of the examples: a second start and a
  further body chunk are rejected.
\<close>

theorem after_completion_witness:
  "calls ascii_lib ''GET''
     [Send (http_response_start (VInt 200) []), Send (http_response_body [1] False)]
     (initial_exchange VNone) = Some completed_example
   \<and> response_complete completed_example
   \<and> msg_type (http_response_start (VInt 404) []) ''http.response.start''
   \<and> send ascii_lib ''GET'' (http_response_start (VInt 404) []) completed_example =
        (Some (AssertionError ''Received multiple \"http.response.start\" messages.''),
         completed_example)
   \<and> msg_type (http_response_body [2] False) ''http.response.body''
   \<and> send ascii_lib ''GET'' (http_response_body [2] False) completed_example =
        (Some (AssertionError ''Received \"http.response.body\" after response completed.''),
         completed_example)"
proof -
  have c: "response_complete completed_example"
    by (simp add: completed_example_eq)
  have t: "msg_type (http_response_start (VInt 404) []) ''http.response.start''"
    "msg_type (http_response_body [2] False) ''http.response.body''"
    by (simp_all add: msg_type_def http_response_start_def http_response_body_def)
  show ?thesis
    using after_completion[OF calls_completed_example c, of "http_response_start (VInt 404) []"]
      after_completion[OF calls_completed_example c, of "http_response_body [2] False"]
      calls_completed_example c t
    by simp
qed

text \<open>
  Claim C6 as stated fails: after the response has completed, \<^verbatim>\<open>send\<close> accepts an
  \<^verbatim>\<open>http.response.template\<close> message, recording it, and accepts a message of an
  unknown type; neither raises.
\<close>

theorem after_completion_counterexample:
  "response_complete completed_example
   \<and> send ascii_lib ''GET'' (http_response_template (VStr ''index.html'') (VObj 0))
        completed_example =
        (None, completed_example\<lparr>template := VStr ''index.html'', context' := VObj 0\<rparr>)
   \<and> send ascii_lib ''GET'' [''type'' \<mapsto> VStr ''http.response.trailers''] completed_example =
        (None, completed_example)"
  by (simp add: completed_example_eq send_def send_template_def http_response_template_def)

text \<open>
  Claim C10. An \<^verbatim>\<open>http.response.body\<close> message without the key \<^verbatim>\<open>body\<close> is
  handled as one whose body is the empty bytes, and one without the key
  \<^verbatim>\<open>more_body\<close> as one whose \<^verbatim>\<open>more_body\<close> is false. So a message with the
  type alone, sent after the response has started and before it has completed, completes
  the response and leaves the bytes of the buffer as they were.
\<close>

theorem bare_body_event:
  "(m ''type'' = Some (VStr ''http.response.body'') \<and> m ''body'' = None \<longrightarrow>
      send lib meth m st = send lib meth (m(''body'' \<mapsto> VBytes [])) st)
   \<and> (m ''type'' = Some (VStr ''http.response.body'') \<and> m ''more_body'' = None \<longrightarrow>
      send lib meth m st = send lib meth (m(''more_body'' \<mapsto> VBool False)) st)
   \<and> (response_started st \<and> \<not> response_complete st \<longrightarrow>
      send lib meth [''type'' \<mapsto> VStr ''http.response.body''] st =
        (None, st\<lparr>raw := (raw st)\<lparr>rk_body := bio_seek0 (rk_body (raw st))\<rparr>,
                   response_complete := True\<rparr>)
      \<and> buf (bio_seek0 (rk_body (raw st))) = buf (rk_body (raw st)))"
  by (simp add: send_def send_body_def dict_get_def bio_write_def bio_seek0_def Let_def)

text \<open>
  The theorem of claim C10 at the started exchange of the examples: the bare body message
  completes it, as the message with an empty body and \<^verbatim>\<open>more_body\<close> false does.
\<close>

theorem bare_body_event_witness:
  "response_started started_example \<and> \<not> response_complete started_example
   \<and> [''type'' \<mapsto> VStr ''http.response.body''] ''body'' = None
   \<and> [''type'' \<mapsto> VStr ''http.response.body''] ''more_body'' = None
   \<and> send ascii_lib ''GET'' [''type'' \<mapsto> VStr ''http.response.body''] started_example =
        (None, started_example\<lparr>response_complete := True\<rparr>)
   \<and> send ascii_lib ''GET'' [''type'' \<mapsto> VStr ''http.response.body''] started_example =
      send ascii_lib ''GET'' [''type'' \<mapsto> VStr ''http.response.body'', ''body'' \<mapsto> VBytes [],
                              ''more_body'' \<mapsto> VBool False] started_example"
proof -
  have p: "response_started started_example" "\<not> response_complete started_example"
    "bio_seek0 (rk_body (raw started_example)) = rk_body (raw started_example)"
    by (simp_all add: started_example_eq initial_exchange_def bio_seek0_def BytesIO_def)
  have q: "[''type'' \<mapsto> VStr ''http.response.body''] ''body'' = None"
     "[''type'' \<mapsto> VStr ''http.response.body''] ''more_body'' = None"
     "[''type'' \<mapsto> VStr ''http.response.body''] ''type'' = Some (VStr ''http.response.body'')"
     "[''type'' \<mapsto> VStr ''http.response.body'', ''body'' \<mapsto> VBytes []] ''more_body'' = None"
     "[''type'' \<mapsto> VStr ''http.response.body'', ''body'' \<mapsto> VBytes []] ''type'' = Some (VStr ''http.response.body'')"
    by simp_all
  show ?thesis
    using bare_body_event[of "[''type'' \<mapsto> VStr ''http.response.body'']" ascii_lib "''GET''" started_example]
      bare_body_event[of "[''type'' \<mapsto> VStr ''http.response.body'', ''body'' \<mapsto> VBytes []]" ascii_lib "''GET''" started_example]
      p q
    by simp
qed

section \<open>The body of a HEAD response\<close>

lemma send_head_body:
  "rk_body (raw st) = BytesIO \<Longrightarrow> rk_body (raw (snd (send lib ''HEAD'' m st))) = BytesIO"
  by (auto simp: send_def send_start_def send_body_def send_template_def Let_def
        bio_seek0_def BytesIO_def
        split: option.splits sum.splits if_splits)

lemma run_head:
  "run_until_complete lib ''HEAD'' a st = Some (r, st') \<Longrightarrow> rk_body (raw st) = BytesIO \<Longrightarrow>
   rk_body (raw st') = BytesIO"
proof (induction a arbitrary: st)
  case Return
  then show ?case by simp
next
  case (Raise e)
  then show ?case by simp
next
  case (AwaitReceive k)
  from AwaitReceive.prems(1) obtain m s1 where r: "receive lib st = Some (m, s1)"
    and c: "run_until_complete lib ''HEAD'' (k m) s1 = Some (r, st')"
    by (auto split: option.splits)
  from r AwaitReceive.prems(2) have "rk_body (raw s1) = BytesIO"
    by (simp add: receive_response_flags)
  with c show ?case using AwaitReceive.IH[of "k m" s1] by auto
next
  case (AwaitSend m k)
  obtain x s1 where s: "send lib ''HEAD'' m st = (x, s1)" by (cases "send lib ''HEAD'' m st")
  with AwaitSend.prems(1) have c: "run_until_complete lib ''HEAD'' (k x) s1 = Some (r, st')"
    by simp
  from s send_head_body[OF AwaitSend.prems(2), of lib m] have "rk_body (raw s1) = BytesIO"
    by simp
  with c show ?case using AwaitSend.IH[of "k x" s1] by auto
qed

text \<open>
  Claim C8. For a request with method \<^verbatim>\<open>HEAD\<close>, whatever the application does and
  sends, a response that the adapter returns has an empty body: nothing is ever written to
  the buffer, so the library builds the response from a body stream without bytes; and
  when the response object is the keyword arguments themselves, its body is empty.
\<close>

theorem head_body_empty:
  assumes "method' req = ''HEAD''"
  shows "(ASGIAdapter_send lib library rse req a = Some (Inr r) \<longrightarrow>
            (\<exists>K. library req K = Inr (response_obj r)
                \<and> bio_read (rk_body K) = [] \<and> buf (rk_body K) = []))
       \<and> (ASGIAdapter_send lib kwargs_response rse req a = Some (Inr r') \<longrightarrow>
            bio_read (rk_body (response_obj r')) = [] \<and> buf (rk_body (response_obj r')) = [])"
proof -
  have gen: "\<exists>K. L req K = Inr (response_obj q)
      \<and> bio_read (rk_body K) = [] \<and> buf (rk_body K) = []"
    if q: "ASGIAdapter_send lib L rse req a = Some (Inr q)" for L :: "'c http_library" and q
  proof -
    from q obtain x st where
      run: "run_until_complete lib (method' req) a (initial_exchange (body req)) = Some (x, st)"
      and fin: "finish_exchange L rse req st = Inr q"
      by (auto simp: ASGIAdapter_send_def split: option.splits if_splits)
    have "rk_body (raw st) = BytesIO"
      using run assms run_head[of lib a "initial_exchange (body req)" x st]
      by (simp add: initial_exchange_def)
    moreover have "bio_read BytesIO = []" "buf BytesIO = []"
      by (simp_all add: bio_read_def BytesIO_def)
    ultimately show ?thesis
      using fin
      by (auto simp: finish_exchange_def make_response_def synthetic_raw_kwargs_def
            split: if_splits sum.splits)
  qed
  show ?thesis
    using gen[of library r] gen[of kwargs_response r']
    by (auto simp: kwargs_response_def)
qed

text \<open>
  The theorem of claim C8 at a \<^verbatim>\<open>HEAD\<close> request whose application sends a start and
  two non-empty body chunks.
\<close>

theorem head_body_empty_witness:
  "method' \<lparr>method' = ''HEAD'', body = VNone\<rparr> = ''HEAD''
   \<and> (case ASGIAdapter_send ascii_lib kwargs_response True \<lparr>method' = ''HEAD'', body = VNone\<rparr>
              (two_chunk_app []) of
         Some (Inr r) \<Rightarrow>
           bio_read (rk_body (response_obj r)) = []
           \<and> rk_status (response_obj r) = Some (VInt 200)
       | _ \<Rightarrow> False)"
proof -
  let ?req = "\<lparr>method' = ''HEAD'', body = VNone\<rparr>"
  have "\<exists>r. ASGIAdapter_send ascii_lib kwargs_response True ?req (two_chunk_app []) =
              Some (Inr r)
            \<and> rk_status (response_obj r) = Some (VInt 200)"
    by (simp add: ASGIAdapter_send_def two_chunk_app_def receive_def send_def send_start_def
          send_body_def http_response_start_def http_response_body_def decode_headers_def
          iterate_def dict_get_def initial_exchange_def finish_exchange_def make_response_def
          kwargs_response_def Let_def)
  then obtain r where
    r: "ASGIAdapter_send ascii_lib kwargs_response True ?req (two_chunk_app []) = Some (Inr r)"
    and s: "rk_status (response_obj r) = Some (VInt 200)" by blast
  have m: "method' ?req = ''HEAD''" by simp
  show ?thesis
    using head_body_empty[OF m, of ascii_lib kwargs_response True "two_chunk_app []" r r] r s
    by simp
qed

section \<open>Failures of the application\<close>

text \<open>
  Claim C3. With \<^verbatim>\<open>raise_server_exceptions\<close> false, when the application raises and
  no response start has been recorded, the adapter does not raise that failure: it returns
  the substitute response, which the library builds from the status 500, no headers and
  an empty body; when the response object is the keyword arguments themselves, that is
  its status, its headers and its body. With \<^verbatim>\<open>raise_server_exceptions\<close> true, a
  failure of the application is raised to the caller, and an exchange in which the
  application returns without a recorded response start ends in an assertion failure.
\<close>

theorem server_exceptions_policy:
  "(run_until_complete lib (method' req) a (initial_exchange (body req)) = Some (Some e, st)
      \<and> \<not> response_started st \<longrightarrow>
        ASGIAdapter_send lib library False req a =
          Some (make_response library req synthetic_raw_kwargs (template st) (context' st))
        \<and> rk_status synthetic_raw_kwargs = Some (VInt 500)
        \<and> rk_headers synthetic_raw_kwargs = Some []
        \<and> bio_read (rk_body synthetic_raw_kwargs) = []
        \<and> (\<exists>r. ASGIAdapter_send lib kwargs_response False req a = Some (Inr r)
              \<and> rk_status (response_obj r) = Some (VInt 500)
              \<and> rk_headers (response_obj r) = Some []
              \<and> bio_read (rk_body (response_obj r)) = []))
   \<and> (run_until_complete lib (method' req) a (initial_exchange (body req)) = Some (Some e, st)
      \<longrightarrow> ASGIAdapter_send lib library True req a = Some (Inl e))
   \<and> (run_until_complete lib (method' req) a (initial_exchange (body req)) = Some (None, st)
      \<and> \<not> response_started st \<longrightarrow>
        ASGIAdapter_send lib library True req a =
          Some (Inl (AssertionError ''TestClient did not receive any response.'')))"
  by (simp add: ASGIAdapter_send_def finish_exchange_def make_response_def kwargs_response_def
        bio_read_def synthetic_raw_kwargs_def BytesIO_def)

text \<open>
  The theorem of claim C3 at an application that raises at once and at one that returns at
  once.
\<close>

theorem server_exceptions_policy_witness:
  "run_until_complete ascii_lib ''GET'' (Raise (AppError ''boom'')) (initial_exchange VNone) =
     Some (Some (AppError ''boom''), initial_exchange VNone)
   \<and> \<not> response_started (initial_exchange VNone)
   \<and> (case ASGIAdapter_send ascii_lib kwargs_response False \<lparr>method' = ''GET'', body = VNone\<rparr>
              (Raise (AppError ''boom'')) of
         Some (Inr r) \<Rightarrow>
           rk_status (response_obj r) = Some (VInt 500) \<and> rk_headers (response_obj r) = Some []
           \<and> bio_read (rk_body (response_obj r)) = []
       | _ \<Rightarrow> False)
   \<and> ASGIAdapter_send ascii_lib kwargs_response True \<lparr>method' = ''GET'', body = VNone\<rparr>
        (Raise (AppError ''boom'')) = Some (Inl (AppError ''boom''))
   \<and> run_until_complete ascii_lib ''GET'' Return (initial_exchange VNone) =
        Some (None, initial_exchange VNone)
   \<and> ASGIAdapter_send ascii_lib kwargs_response True \<lparr>method' = ''GET'', body = VNone\<rparr> Return =
        Some (Inl (AssertionError ''TestClient did not receive any response.''))"
proof -
  have n: "\<not> response_started (initial_exchange VNone)"
    by (simp add: initial_exchange_def)
  have r1: "run_until_complete ascii_lib (method' \<lparr>method' = ''GET'', body = VNone\<rparr>)
      (Raise (AppError ''boom'')) (initial_exchange (body \<lparr>method' = ''GET'', body = VNone\<rparr>)) =
     Some (Some (AppError ''boom''), initial_exchange VNone)"
    by simp
  have r2: "run_until_complete ascii_lib (method' \<lparr>method' = ''GET'', body = VNone\<rparr>)
      Return (initial_exchange (body \<lparr>method' = ''GET'', body = VNone\<rparr>)) =
     Some (None, initial_exchange VNone)"
    by simp
  show ?thesis
    using server_exceptions_policy[of ascii_lib "\<lparr>method' = ''GET'', body = VNone\<rparr>"
        "Raise (AppError ''boom'')" "AppError ''boom''" "initial_exchange VNone" kwargs_response]
      server_exceptions_policy[of ascii_lib "\<lparr>method' = ''GET'', body = VNone\<rparr>"
        Return "AppError ''boom''" "initial_exchange VNone" kwargs_response]
      n r1 r2
    by (auto simp: make_response_def kwargs_response_def)
qed

lemma default_raise_server_exceptions:
  "\<exists>c. TestClient_default a = Inr c
      \<and> map (\<lambda>(p, ad). raise_server_exceptions ad) (mounts c) = replicate 4 True"
  by (simp add: TestClient_default_def TestClient_init_def Let_def numeral_eq_Suc)

section \<open>Construction of a duplex session\<close>

text \<open>
  Claim C9. Let \<open>m\<close> be the first message that the application sends in a duplex
  session. If \<open>m\<close> is a \<^verbatim>\<open>websocket.close\<close> event with code 1008, the constructor
  raises \<^verbatim>\<open>WebSocketDisconnect\<close> carrying 1008 and no session comes into being; if
  \<open>m\<close> has another type, the constructor returns a session whose accepted subprotocol
  is the \<^verbatim>\<open>subprotocol\<close> entry of \<open>m\<close>, or \<^verbatim>\<open>None\<close> without one.
\<close>

theorem session_first_message:
  assumes "first_item a [websocket_connect] = Some (Msg m)"
  shows "(msg_type m ''websocket.close'' \<and> m ''code'' = Some (VInt 1008) \<longrightarrow>
            WebSocketTestSession_init a = Some (Inl (WebSocketDisconnect (VInt 1008))))
       \<and> (m ''type'' = Some ty \<and> ty \<noteq> VStr ''websocket.close'' \<longrightarrow>
            WebSocketTestSession_init a =
              Some (Inr \<lparr>accepted_subprotocol = dict_get m ''subprotocol'' VNone\<rparr>))"
  using assms
  by (simp add: WebSocketTestSession_init_def raise_on_close_def msg_type_def dict_get_def)

text \<open>
  The theorem of claim C9 at an application that answers the connect event with a close of
  code 1008, and at one that accepts with the subprotocol \<^verbatim>\<open>wamp\<close>.
\<close>

theorem session_first_message_witness:
  "first_item (AwaitReceive (\<lambda>c. AwaitSend (websocket_close 1008) (\<lambda>r. Return)))
     [websocket_connect] = Some (Msg (websocket_close 1008))
   \<and> msg_type (websocket_close 1008) ''websocket.close''
   \<and> websocket_close 1008 ''code'' = Some (VInt 1008)
   \<and> WebSocketTestSession_init (AwaitReceive (\<lambda>c. AwaitSend (websocket_close 1008) (\<lambda>r. Return)))
       = Some (Inl (WebSocketDisconnect (VInt 1008)))
   \<and> first_item (AwaitReceive (\<lambda>c. AwaitSend (websocket_accept ''wamp'') (\<lambda>r. Return)))
     [websocket_connect] = Some (Msg (websocket_accept ''wamp''))
   \<and> websocket_accept ''wamp'' ''type'' = Some (VStr ''websocket.accept'')
   \<and> WebSocketTestSession_init (AwaitReceive (\<lambda>c. AwaitSend (websocket_accept ''wamp'') (\<lambda>r. Return)))
       = Some (Inr \<lparr>accepted_subprotocol = VStr ''wamp''\<rparr>)"
proof -
  let ?a = "AwaitReceive (\<lambda>c. AwaitSend (websocket_close 1008) (\<lambda>r. Return))"
  let ?b = "AwaitReceive (\<lambda>c. AwaitSend (websocket_accept ''wamp'') (\<lambda>r. Return))"
  have fa: "first_item ?a [websocket_connect] = Some (Msg (websocket_close 1008))" by simp
  have fb: "first_item ?b [websocket_connect] = Some (Msg (websocket_accept ''wamp''))" by simp
  have ma: "msg_type (websocket_close 1008) ''websocket.close''"
    "websocket_close 1008 ''code'' = Some (VInt 1008)"
    by (simp_all add: msg_type_def websocket_close_def)
  have mb: "websocket_accept ''wamp'' ''type'' = Some (VStr ''websocket.accept'')"
    "VStr ''websocket.accept'' \<noteq> VStr ''websocket.close''"
    "dict_get (websocket_accept ''wamp'') ''subprotocol'' VNone = VStr ''wamp''"
    by (simp_all add: websocket_accept_def dict_get_def)
  show ?thesis
    using session_first_message[OF fa, of "VStr ''x''"]
      session_first_message[OF fb, of "VStr ''websocket.accept''"] fa fb ma mb
    by simp
qed

section \<open>The startup handshake\<close>

text \<open>
  Claim C5, as the code has it. When the first message of the application on startup is
  \<^verbatim>\<open>lifespan.startup.failed\<close>, scope-enter raises the application's own failure if
  the task then ends by raising; if the task then ends without raising, or sends a further
  message, scope-enter returns without any failure; and if the task sends nothing more
  and does not end, scope-enter does not return.
\<close>

theorem startup_failed:
  assumes "lifespan a [lifespan_startup] = (Some m # out, t)"
    and "msg_type m ''lifespan.startup.failed''"
  shows "(out = None # out2 \<and> t = Failed e \<longrightarrow> TestClient_enter a = Some (Inl e))
       \<and> (out = None # out2 \<and> t = Finished \<longrightarrow> TestClient_enter a = Some (Inr out2))
       \<and> (out = Some m2 # out2 \<longrightarrow> TestClient_enter a = Some (Inr out2))
       \<and> (out = [] \<longrightarrow> TestClient_enter a = None)"
  using assms
  by (simp add: TestClient_enter_def wait_startup_def msg_type_def task_result_def)

text \<open>
  The theorem of claim C5 at an application that sends
  \<^verbatim>\<open>lifespan.startup.failed\<close> and then raises.
\<close>

theorem startup_failed_witness:
  "lifespan (AwaitReceive (\<lambda>s. AwaitSend lifespan_startup_failed
                                  (\<lambda>r. Raise (AppError ''startup''))))
     [lifespan_startup] = ([Some lifespan_startup_failed, None], Failed (AppError ''startup''))
   \<and> msg_type lifespan_startup_failed ''lifespan.startup.failed''
   \<and> TestClient_enter (AwaitReceive (\<lambda>s. AwaitSend lifespan_startup_failed
                                  (\<lambda>r. Raise (AppError ''startup''))))
       = Some (Inl (AppError ''startup''))"
proof -
  let ?a = "AwaitReceive (\<lambda>s. AwaitSend lifespan_startup_failed
                                  (\<lambda>r. Raise (AppError ''startup'')))"
  have l: "lifespan ?a [lifespan_startup] =
      (Some lifespan_startup_failed # [None], Failed (AppError ''startup''))"
    by simp
  have m: "msg_type lifespan_startup_failed ''lifespan.startup.failed''"
    by (simp add: msg_type_def lifespan_startup_failed_def)
  show ?thesis
    using startup_failed[OF l m, of "[]" "AppError ''startup''"] l m by simp
qed

text \<open>
  Claim C5 as stated fails: for an application that sends
  \<^verbatim>\<open>lifespan.startup.failed\<close> and then returns, scope-enter returns normally.
\<close>

theorem startup_failed_counterexample:
  "lifespan (AwaitReceive (\<lambda>s. AwaitSend lifespan_startup_failed (\<lambda>r. Return)))
     [lifespan_startup] = ([Some lifespan_startup_failed, None], Finished)
   \<and> TestClient_enter (AwaitReceive (\<lambda>s. AwaitSend lifespan_startup_failed (\<lambda>r. Return)))
       = Some (Inr [])"
  by (simp add: TestClient_enter_def wait_startup_def lifespan_startup_failed_def
        task_result_def)

section \<open>Construction of the test client\<close>

text \<open>
  Claim C4, as the code has it. The constructor of the test client raises for no
  application value: a value that \<^verbatim>\<open>_is_asgi3\<close> accepts is kept as it is, every
  other value is wrapped as an application of the legacy two-step shape, and the four
  mounted adapters hold the result.
\<close>

theorem construction_never_fails:
  "\<exists>c. TestClient_init a url rse rp = Inr c
      \<and> client_app c = (if is_asgi3 a then ASGI3 a else WrapASGI2 a)
      \<and> map (\<lambda>(p, ad). adapter_app ad) (mounts c) = replicate 4 (client_app c)"
  by (simp add: TestClient_init_def Let_def numeral_eq_Suc)

text \<open>
  Claim C4 as stated fails: for a value that is not callable, for which neither shape can
  be determined, the constructor does not raise; it wraps the value as a two-step
  application.
\<close>

theorem construction_counterexample:
  "\<not> is_asgi3 not_callable \<and> \<not> callable not_callable
   \<and> (case TestClient_init not_callable ''http://testserver'' True [] of
         Inr c \<Rightarrow> client_app c = WrapASGI2 not_callable
       | Inl e \<Rightarrow> False)"
  by (simp add: is_asgi3_def callable_def not_callable_def TestClient_init_def Let_def)

end
